theory Spec2Isabelle
  imports Complex_Main
begin

section \<open>Python values, exceptions and the observable trace\<close>

text \<open>
  The development embeds \<^verbatim>\<open>src/modules/Employer.py\<close>. The class dispatches a
  user's text to one of eleven static methods, two of which start daemon threads. The
  modules it imports (AI, Audio, Commands, Gmail, Weather, ScreenReader, MouseController,
  geocoder, os, time, threading) are collaborators: each call to one of them is recorded
  as an event of the trace, and what it answers is taken from an environment record, as a
  function of everything that happened before the call. A collaborator that returns data
  may also raise.
\<close>

datatype pyval = PNone | PBool bool | PInt int | PStr string

text \<open>Python's truth value of an object, as \<^verbatim>\<open>if audio:\<close> reads it.\<close>

fun truthy :: "pyval \<Rightarrow> bool" where
  "truthy PNone = False"
| "truthy (PBool b) = b"
| "truthy (PInt i) = (i \<noteq> 0)"
| "truthy (PStr s) = (s \<noteq> [])"

text \<open>Decimal text of a number, as an f-string formats an \<^verbatim>\<open>int\<close>.\<close>

fun str_nat :: "nat \<Rightarrow> string" where
  "str_nat n =
     (if n < 10 then [''0123456789'' ! n]
      else str_nat (n div 10) @ [''0123456789'' ! (n mod 10)])"

definition str_int :: "int \<Rightarrow> string" where
  "str_int i = (if i < 0 then ''-'' @ str_nat (nat (- i)) else str_nat (nat i))"

text \<open>\<^verbatim>\<open>str(v)\<close>, which an f-string applies to \<^verbatim>\<open>{city}\<close>.\<close>

fun py_str :: "pyval \<Rightarrow> string" where
  "py_str PNone = ''None''"
| "py_str (PBool b) = (if b then ''True'' else ''False'')"
| "py_str (PInt i) = str_int i"
| "py_str (PStr s) = s"

text \<open>\<^verbatim>\<open>sep.join(xs)\<close> on a list of strings.\<close>

fun join_str :: "string \<Rightarrow> string list \<Rightarrow> string" where
  "join_str sep [] = []"
| "join_str sep [x] = x"
| "join_str sep (x # y # ys) = x @ sep @ join_str sep (y # ys)"

datatype exn = TypeError | KeyError | CollaboratorError string

text \<open>
  How a call ends: it returns a value, an exception leaves it, or the process is gone
  (\<^verbatim>\<open>os._exit\<close>). Every method of the class returns \<^verbatim>\<open>None\<close>.
\<close>

datatype outcome = Return pyval | Raise exn | Exit int

type_synonym coord = real
type_synonym message = string
type_synonym screenshot = nat
type_synonym bbox = "int \<times> int \<times> int \<times> int"

text \<open>The eleven entries of \<^verbatim>\<open>self.available_jobs\<close>.\<close>

datatype job =
    Help
  | AskQuestion
  | CheckNewEmails
  | StartCheckingNewEmails
  | StopCheckingNewEmails
  | WeatherJob
  | AcceptGame
  | IdleMouse
  | QueueUp
  | CloseComputer
  | ExitJob

text \<open>
  The events of a run, in program order: the two output channels (\<^verbatim>\<open>print\<close> and
  \<^verbatim>\<open>Audio.text_to_speech\<close>) and every call to a collaborator.
\<close>

datatype event =
    Print string
  | Speak string
  | GetFunctionToCall string "job list"
  | AIAskQuestion pyval
  | GetAllCommands
  | GetNewMessages
  | FormatMessage message
  | GeocoderIp string
  | GetCoordinatesForCityName pyval
  | GetWeatherForCoordinates coord coord
  | TakeScreenshot bool
  | FindTextInScreenshot screenshot string
  | GoToCenterOfBbox bbox
  | ClickLeftButton
  | MouseIdle
  | Startfile string
  | System string
  | Sleep nat

record bot_response =
  resp_name :: string
  resp_args :: "string \<rightharpoonup> pyval"

text \<open>
  What \<^verbatim>\<open>geocoder.ip("me")\<close> answers: its \<^verbatim>\<open>city\<close> and the pair
  \<^verbatim>\<open>latlng\<close>.
\<close>

record geolocation =
  geo_city :: pyval
  latlng :: "coord option \<times> coord option"

text \<open>
  The two fields \<^verbatim>\<open>weather\<close> reads of the weather answer:
  \<^verbatim>\<open>weather['weather'][0]['description']\<close> and the text of
  \<^verbatim>\<open>weather['main']['temp']\<close> (a float in the source; its formatting is
  the collaborator's here).
\<close>

record weather_info =
  description :: string
  temp :: string

text \<open>
  The collaborators. The first argument of each is the trace before the call, so an
  answer may change from one call to the next. \<^verbatim>\<open>None\<close> answers are
  \<open>None\<close>; a raised exception is \<open>Inl\<close>.
\<close>

record env =
  get_function_to_call :: "event list \<Rightarrow> string \<Rightarrow> job list \<Rightarrow> exn + bot_response option"
  ai_ask_question :: "event list \<Rightarrow> pyval \<Rightarrow> exn + string option"
  get_all_commands :: "event list \<Rightarrow> exn + string list"
  get_new_messages :: "event list \<Rightarrow> exn + message list"
  format_message :: "event list \<Rightarrow> message \<Rightarrow> exn + string"
  geocoder_ip :: "event list \<Rightarrow> string \<Rightarrow> exn + geolocation"
  get_coordinates_for_city_name :: "event list \<Rightarrow> pyval \<Rightarrow> exn + (coord option \<times> coord option)"
  get_weather_for_coordinates :: "event list \<Rightarrow> coord \<Rightarrow> coord \<Rightarrow> exn + weather_info option"
  take_screenshot :: "event list \<Rightarrow> bool \<Rightarrow> exn + screenshot"
  find_text_in_screenshot :: "event list \<Rightarrow> screenshot \<Rightarrow> string \<Rightarrow> exn + bbox option"

section \<open>Threads and the shared job map\<close>

text \<open>
  A thread is its target (one of the two nested \<^verbatim>\<open>wrapper\<close> functions, the
  first closed over \<^verbatim>\<open>audio\<close>), its daemon flag and where it stands in its loop.
  A thread handle is the thread's index in the list of all threads started so far.
\<close>

datatype target = CheckNewEmailsWrapper pyval | AcceptGameWrapper

datatype tstate = AtLoopHead | AtWork | AtSleep | Finished "exn option"

record thread =
  target :: target
  daemon :: bool
  tstate :: tstate

text \<open>
  The state of the process: the class attribute \<^verbatim>\<open>Employer._active_jobs\<close>, the
  threads started so far, and the trace.
\<close>

record world =
  active_jobs :: "string \<rightharpoonup> nat"
  threads :: "thread list"
  trace :: "event list"

definition initial_world :: world where
  "initial_world = \<lparr>active_jobs = Map.empty, threads = [], trace = []\<rparr>"

definition emit :: "event \<Rightarrow> world \<Rightarrow> world" where
  "emit e w = w\<lparr>trace := trace w @ [e]\<rparr>"

text \<open>
  \<^verbatim>\<open>thread = threading.Thread(target=...); thread.daemon = True; thread.start()\<close>:
  the new thread stands at the head of its loop.
\<close>

definition start_thread :: "target \<Rightarrow> world \<Rightarrow> world" where
  "start_thread tg w =
     w\<lparr>threads := threads w @ [\<lparr>target = tg, daemon = True, tstate = AtLoopHead\<rparr>]\<rparr>"

definition set_tstate :: "nat \<Rightarrow> tstate \<Rightarrow> world \<Rightarrow> world" where
  "set_tstate tid st w = w\<lparr>threads := (threads w)[tid := (threads w ! tid)\<lparr>tstate := st\<rparr>]\<rparr>"

definition finished :: "nat \<Rightarrow> world \<Rightarrow> bool" where
  "finished tid w =
     (tid < length (threads w) \<and>
      (case tstate (threads w ! tid) of Finished x \<Rightarrow> True | _ \<Rightarrow> False))"

section \<open>The actions\<close>

text \<open>
  Each static method of the class, in the order of the source. A method takes the
  environment, its Python parameters and the world, and returns how it ended with the
  world it left. The threads take their steps between two calls and at the two places
  inside a call where the shared job map makes their steps matter: between the start of
  the mail worker and the store of its key, and while a call waits in
  \<^verbatim>\<open>join\<close>. The output channels, the mouse and the operating system calls are
  events only: they return and do not raise. An answer of a collaborator that the caller
  cannot unpack counts as an exception raised by the call.
\<close>

definition help_action :: "env \<Rightarrow> pyval \<Rightarrow> world \<Rightarrow> outcome \<times> world" where
  "help_action env audio w =
     (let w1 = emit (Print ''Getting all commands...'') w;
          w2 = emit GetAllCommands w1
      in case get_all_commands env (trace w1) of
           Inl e \<Rightarrow> (Raise e, w2)
         | Inr commands \<Rightarrow>
             let string_commends = join_str '', '' commands
             in if truthy audio
                then (Return PNone,
                      emit (Speak (''Available commands are: '' @ string_commends @ ''.'')) w2)
                else (Return PNone,
                      emit (Print (''Available commands are: '' @ string_commends @ ''.'')) w2))"

definition ask_question :: "env \<Rightarrow> pyval \<Rightarrow> pyval \<Rightarrow> world \<Rightarrow> outcome \<times> world" where
  "ask_question env question audio w =
     (let w1 = emit (Print ''Asking question...'') w;
          w2 = emit (AIAskQuestion question) w1
      in case ai_ask_question env (trace w1) question of
           Inl e \<Rightarrow> (Raise e, w2)
         | Inr None \<Rightarrow> (Return PNone, emit (Print ''Error: Could not retrieve an answer.'') w2)
         | Inr (Some answer) \<Rightarrow>
             if truthy audio then (Return PNone, emit (Speak answer) w2)
             else (Return PNone, emit (Print answer) w2))"

text \<open>The \<^verbatim>\<open>for message in messages\<close> loop of \<^verbatim>\<open>check_new_emails\<close>.\<close>

fun check_new_emails_loop :: "env \<Rightarrow> pyval \<Rightarrow> message list \<Rightarrow> world \<Rightarrow> outcome \<times> world" where
  "check_new_emails_loop env audio [] w = (Return PNone, w)"
| "check_new_emails_loop env audio (message # rest) w =
     (let w1 = emit (FormatMessage message) w
      in case format_message env (trace w) message of
           Inl e \<Rightarrow> (Raise e, w1)
         | Inr formatted_message \<Rightarrow>
             if truthy audio
             then check_new_emails_loop env audio rest (emit (Speak formatted_message) w1)
             else check_new_emails_loop env audio rest (emit (Print formatted_message) w1))"

definition check_new_emails :: "env \<Rightarrow> pyval \<Rightarrow> world \<Rightarrow> outcome \<times> world" where
  "check_new_emails env audio w =
     (let w1 = emit (Print ''Checking new emails...'') w;
          w2 = emit GetNewMessages w1
      in case get_new_messages env (trace w1) of
           Inl e \<Rightarrow> (Raise e, w2)
         | Inr messages \<Rightarrow>
             if truthy audio
             then check_new_emails_loop env audio messages
                    (emit (Speak (''You have '' @ str_nat (length messages) @ '' new messages.'')) w2)
             else check_new_emails_loop env audio messages
                    (emit (Print (''You have '' @ str_nat (length messages) @ '' new messages.'')) w2))"

definition minutes :: nat where
  "minutes = 15"

text \<open>
  One step of the \<^verbatim>\<open>wrapper\<close> of \<^verbatim>\<open>start_checking_new_emails\<close>, run by
  thread \<open>tid\<close>: the test of the key at the head of the loop, the call of
  \<^verbatim>\<open>check_new_emails\<close>, the sleep of \<^verbatim>\<open>60 * minutes\<close> seconds. An
  exception of \<^verbatim>\<open>check_new_emails\<close> ends the thread, since the wrapper
  catches nothing.
\<close>

definition check_new_emails_wrapper_step :: "env \<Rightarrow> nat \<Rightarrow> pyval \<Rightarrow> world \<Rightarrow> world" where
  "check_new_emails_wrapper_step env tid audio w =
     (case tstate (threads w ! tid) of
        AtLoopHead \<Rightarrow>
          if active_jobs w ''check_new_emails'' = None
          then set_tstate tid (Finished None) w
          else set_tstate tid AtWork w
      | AtWork \<Rightarrow>
          (let r = check_new_emails env audio w
           in case fst r of
                Raise e \<Rightarrow> set_tstate tid (Finished (Some e)) (snd r)
              | _ \<Rightarrow> set_tstate tid AtSleep (snd r))
      | AtSleep \<Rightarrow> set_tstate tid AtLoopHead (emit (Sleep (60 * minutes)) w)
      | Finished x \<Rightarrow> w)"

text \<open>
  One step of the \<^verbatim>\<open>wrapper\<close> of \<^verbatim>\<open>accept_game\<close>: a screenshot, the
  search for \<^verbatim>\<open>"accept!"\<close>, and either the move and click that end the loop or
  the sleep of 5 seconds. The collaborator's answer stands for
  \<^verbatim>\<open>accept_object[0]\<close>. This wrapper never stands at \<open>AtWork\<close>.
\<close>

definition accept_game_wrapper_step :: "env \<Rightarrow> nat \<Rightarrow> world \<Rightarrow> world" where
  "accept_game_wrapper_step env tid w =
     (case tstate (threads w ! tid) of
        AtLoopHead \<Rightarrow>
          (let w1 = emit (TakeScreenshot True) w
           in case take_screenshot env (trace w) True of
                Inl e \<Rightarrow> set_tstate tid (Finished (Some e)) w1
              | Inr screenshot \<Rightarrow>
                  (let w2 = emit (FindTextInScreenshot screenshot ''accept!'') w1
                   in case find_text_in_screenshot env (trace w1) screenshot ''accept!'' of
                        Inl e \<Rightarrow> set_tstate tid (Finished (Some e)) w2
                      | Inr (Some accept_object) \<Rightarrow>
                          set_tstate tid (Finished None)
                            (emit ClickLeftButton (emit (GoToCenterOfBbox accept_object) w2))
                      | Inr None \<Rightarrow> set_tstate tid AtSleep w2))
      | AtWork \<Rightarrow> w
      | AtSleep \<Rightarrow> set_tstate tid AtLoopHead (emit (Sleep 5) w)
      | Finished x \<Rightarrow> w)"

text \<open>One step of thread \<open>tid\<close>; a handle that names no thread steps nothing.\<close>

definition thread_step :: "env \<Rightarrow> nat \<Rightarrow> world \<Rightarrow> world" where
  "thread_step env tid w =
     (if tid < length (threads w)
      then (case target (threads w ! tid) of
              CheckNewEmailsWrapper audio \<Rightarrow> check_new_emails_wrapper_step env tid audio w
            | AcceptGameWrapper \<Rightarrow> accept_game_wrapper_step env tid w)
      else w)"

text \<open>The threads run on their own: a schedule lists whose step comes next.\<close>

fun run_threads :: "env \<Rightarrow> nat list \<Rightarrow> world \<Rightarrow> world" where
  "run_threads env [] w = w"
| "run_threads env (t # ts) w = run_threads env ts (thread_step env t w)"

text \<open>
  \<^verbatim>\<open>start_checking_new_emails\<close>, only when the key is not in the map: the thread
  is started (\<^verbatim>\<open>thread.start()\<close>) and recorded under the key after
  (\<^verbatim>\<open>Employer._active_jobs["check_new_emails"] = thread\<close>). Between these two
  statements the threads may run, the new one among them, whose first step is the test of
  the key: the schedule lists the steps taken in that window.
\<close>

definition start_checking_new_emails :: "env \<Rightarrow> nat list \<Rightarrow> pyval \<Rightarrow> world \<Rightarrow> outcome \<times> world" where
  "start_checking_new_emails env sched audio w =
     (let w1 = emit (Print (''Checking new emails every '' @ str_nat minutes @ '' minutes...'')) w
      in if active_jobs w1 ''check_new_emails'' = None
         then let thread = length (threads w1);
                  w2 = start_thread (CheckNewEmailsWrapper audio) w1;
                  w3 = run_threads env sched w2
              in (Return PNone,
                  w3\<lparr>active_jobs := (active_jobs w3)(''check_new_emails'' \<mapsto> thread)\<rparr>)
         else (Return PNone, w1))"

text \<open>
  \<^verbatim>\<open>thread.join()\<close>: the caller waits until thread \<open>tid\<close> has finished. While
  it waits only the threads run, as the schedule says. The result is \<open>None\<close> when the
  schedule is used up and the thread still runs: the join has not returned.
\<close>

fun join :: "env \<Rightarrow> nat list \<Rightarrow> nat \<Rightarrow> world \<Rightarrow> world option" where
  "join env [] tid w = (if finished tid w then Some w else None)"
| "join env (t # ts) tid w =
     (if finished tid w then Some w else join env ts tid (thread_step env t w))"

text \<open>
  \<^verbatim>\<open>stop_checking_new_emails\<close>: when the key is in the map, the thread is
  joined first and the key deleted after. \<^verbatim>\<open>del\<close> of a key that is not
  there raises \<^verbatim>\<open>KeyError\<close>.
\<close>

definition stop_checking_new_emails :: "env \<Rightarrow> nat list \<Rightarrow> world \<Rightarrow> (outcome \<times> world) option" where
  "stop_checking_new_emails env sched w =
     (let w1 = emit (Print ''Stopping checking new emails...'') w
      in case active_jobs w1 ''check_new_emails'' of
           None \<Rightarrow> Some (Return PNone, w1)
         | Some thread \<Rightarrow>
             (case join env sched thread w1 of
                None \<Rightarrow> None
              | Some w2 \<Rightarrow>
                  if active_jobs w2 ''check_new_emails'' = None then Some (Raise KeyError, w2)
                  else Some (Return PNone,
                             w2\<lparr>active_jobs := (active_jobs w2)(''check_new_emails'' := None)\<rparr>)))"

text \<open>
  \<^verbatim>\<open>weather\<close>. The first branch yields the city, the pair of coordinates and the
  world after the call that gave them. The degree sign of the message is its two UTF-8
  bytes.
\<close>

definition weather :: "env \<Rightarrow> pyval \<Rightarrow> pyval \<Rightarrow> world \<Rightarrow> outcome \<times> world" where
  "weather env city audio w =
     (let w1 = emit (Print ''Getting weather...'') w
      in case (if city = PNone \<or> city = PStr ''''
               then (case geocoder_ip env (trace w1) ''me'' of
                       Inl e \<Rightarrow> Inl (e, emit (GeocoderIp ''me'') w1)
                     | Inr my_geolocation \<Rightarrow>
                         Inr (geo_city my_geolocation, latlng my_geolocation,
                              emit (GeocoderIp ''me'') w1))
               else (case get_coordinates_for_city_name env (trace w1) city of
                       Inl e \<Rightarrow> Inl (e, emit (GetCoordinatesForCityName city) w1)
                     | Inr lat_lon \<Rightarrow>
                         Inr (city, lat_lon, emit (GetCoordinatesForCityName city) w1)))
         of
           Inl (e, w2) \<Rightarrow> (Raise e, w2)
         | Inr (city', (lat, lon), w2) \<Rightarrow>
             if lat = None \<or> lon = None
             then (Return PNone,
                   emit (Print ''Error: Could not retrieve coordinates for the given city.'') w2)
             else
               (let w3 = emit (GetWeatherForCoordinates (the lat) (the lon)) w2
                in case get_weather_for_coordinates env (trace w2) (the lat) (the lon) of
                     Inl e \<Rightarrow> (Raise e, w3)
                   | Inr None \<Rightarrow>
                       (Return PNone,
                        emit (Print ''Error: Could not retrieve weather information.'') w3)
                   | Inr (Some weather) \<Rightarrow>
                       let string_weather =
                             ''The weather for '' @ py_str city' @ '' is '' @ description weather
                             @ '' with '' @ temp weather @ [CHR 0xC2, CHR 0xB0] @ ''C.''
                       in if truthy audio then (Return PNone, emit (Speak string_weather) w3)
                          else (Return PNone, emit (Print string_weather) w3)))"

text \<open>
  \<^verbatim>\<open>accept_game\<close>: a new thread at every call; the job map is not read and not
  written.
\<close>

definition accept_game :: "world \<Rightarrow> outcome \<times> world" where
  "accept_game w =
     (let w1 = emit (Print ''Accepting game...'') w
      in (Return PNone, start_thread AcceptGameWrapper w1))"

definition idle_mouse :: "world \<Rightarrow> outcome \<times> world" where
  "idle_mouse w = (Return PNone, emit MouseIdle (emit (Print ''Idling mouse...'') w))"

definition queue_up :: "world \<Rightarrow> outcome \<times> world" where
  "queue_up w =
     (Return PNone,
      emit (Startfile ''C:/Users/Public/Desktop/League of Legends.lnk'')
        (emit (Print ''Queueing up...'') w))"

definition close_computer :: "pyval \<Rightarrow> world \<Rightarrow> outcome \<times> world" where
  "close_computer audio w =
     (let w1 = emit (Print ''Closing computer...'') w;
          w2 = (if truthy audio then emit (Speak ''o7'') w1 else emit (Print ''o7'') w1)
      in (Return PNone, emit (System ''shutdown /s /f /t 0'') w2))"

definition exit :: "pyval \<Rightarrow> world \<Rightarrow> outcome \<times> world" where
  "exit audio w =
     (let w1 = emit (Print ''Exiting program...'') w;
          w2 = (if truthy audio then emit (Speak ''o7'') w1 else emit (Print ''o7'') w1)
      in (Exit 0, w2))"

section \<open>The dispatcher\<close>

record employer =
  available_jobs :: "(string \<times> job) list"
  available_functions :: "job list"
  self_audio :: pyval

text \<open>\<^verbatim>\<open>Employer.__init__\<close>.\<close>

definition Employer :: "pyval \<Rightarrow> employer" where
  "Employer audio =
     (let jobs =
        [(''help'', Help),
         (''ask_question'', AskQuestion),
         (''check_new_emails'', CheckNewEmails),
         (''start_checking_new_emails'', StartCheckingNewEmails),
         (''stop_checking_new_emails'', StopCheckingNewEmails),
         (''weather'', WeatherJob),
         (''accept_game'', AcceptGame),
         (''idle_mouse'', IdleMouse),
         (''queue_up'', QueueUp),
         (''close_computer'', CloseComputer),
         (''exit'', ExitJob)]
      in \<lparr>available_jobs = jobs, available_functions = map snd jobs, self_audio = audio\<rparr>)"

text \<open>A keyword argument, or the parameter's default when the call does not give it.\<close>

definition kwarg :: "(string \<rightharpoonup> pyval) \<Rightarrow> string \<Rightarrow> pyval \<Rightarrow> pyval" where
  "kwarg kwargs k dflt = (case kwargs k of None \<Rightarrow> dflt | Some v \<Rightarrow> v)"

text \<open>
  The call \<^verbatim>\<open>self.available_jobs[function_name](**function_args)\<close>: Python binds
  the keywords to the parameters of the method, every other keyword goes to the method's
  \<^verbatim>\<open>**kwargs\<close>, and a parameter with no default and no keyword
  (\<^verbatim>\<open>question\<close>) raises \<^verbatim>\<open>TypeError\<close> before the body runs. The
  schedule is for the two methods inside which the threads' steps matter: the steps
  between the start of the mail worker and the store of its key, and the steps while the
  stop waits for the worker. \<open>None\<close>: the call has not returned.
\<close>

fun call_job :: "job \<Rightarrow> env \<Rightarrow> nat list \<Rightarrow> (string \<rightharpoonup> pyval) \<Rightarrow> world \<Rightarrow> (outcome \<times> world) option" where
  "call_job Help env sched kwargs w =
     Some (help_action env (kwarg kwargs ''audio'' (PBool False)) w)"
| "call_job AskQuestion env sched kwargs w =
     (case kwargs ''question'' of
        None \<Rightarrow> Some (Raise TypeError, w)
      | Some question \<Rightarrow>
          Some (ask_question env question (kwarg kwargs ''audio'' (PBool False)) w))"
| "call_job CheckNewEmails env sched kwargs w =
     Some (check_new_emails env (kwarg kwargs ''audio'' (PBool False)) w)"
| "call_job StartCheckingNewEmails env sched kwargs w =
     Some (start_checking_new_emails env sched (kwarg kwargs ''audio'' (PBool False)) w)"
| "call_job StopCheckingNewEmails env sched kwargs w =
     stop_checking_new_emails env sched w"
| "call_job WeatherJob env sched kwargs w =
     Some (weather env (kwarg kwargs ''city'' PNone) (kwarg kwargs ''audio'' (PBool False)) w)"
| "call_job AcceptGame env sched kwargs w = Some (accept_game w)"
| "call_job IdleMouse env sched kwargs w = Some (idle_mouse w)"
| "call_job QueueUp env sched kwargs w = Some (queue_up w)"
| "call_job CloseComputer env sched kwargs w =
     Some (close_computer (kwarg kwargs ''audio'' (PBool False)) w)"
| "call_job ExitJob env sched kwargs w =
     Some (exit (kwarg kwargs ''audio'' (PBool False)) w)"

text \<open>
  \<^verbatim>\<open>job_on_command\<close>. It has no \<^verbatim>\<open>try\<close>: what the resolver or the
  method raises leaves it. It returns \<^verbatim>\<open>None\<close> on every path that returns.
\<close>

definition job_on_command :: "employer \<Rightarrow> env \<Rightarrow> nat list \<Rightarrow> string \<Rightarrow> world \<Rightarrow> (outcome \<times> world) option" where
  "job_on_command self env sched user_input w =
     (let w1 = emit (GetFunctionToCall user_input (available_functions self)) w
      in case get_function_to_call env (trace w) user_input (available_functions self) of
           Inl e \<Rightarrow> Some (Raise e, w1)
         | Inr None \<Rightarrow>
             Some (Return PNone, emit (Print ''Error: Could not determine function to call.'') w1)
         | Inr (Some bot_response) \<Rightarrow>
             (let function_name = resp_name bot_response;
                  function_args = (resp_args bot_response)(''audio'' \<mapsto> self_audio self)
              in case map_of (available_jobs self) function_name of
                   None \<Rightarrow> Some (Return PNone, w1)
                 | Some job \<Rightarrow>
                     (case call_job job env sched function_args w1 of
                        None \<Rightarrow> None
                      | Some r \<Rightarrow>
                          (case fst r of
                             Return v \<Rightarrow> Some (Return PNone, snd r)
                           | _ \<Rightarrow> Some r))))"

section \<open>An example environment\<close>

text \<open>
  A concrete environment for the closed instances below: the resolver finds no match, the
  command list has two names, the mailbox holds one message, the machine is located, a
  city's coordinates are not found, the weather is known, and the screen never shows the
  searched text.
\<close>

definition example_env :: env where
  "example_env =
     \<lparr>get_function_to_call = (\<lambda>h u fs. Inr None),
      ai_ask_question = (\<lambda>h q. Inr None),
      get_all_commands = (\<lambda>h. Inr [''help'', ''exit'']),
      get_new_messages = (\<lambda>h. Inr [''hello'']),
      format_message = (\<lambda>h m. Inr (''Message: '' @ m)),
      geocoder_ip = (\<lambda>h a. Inr \<lparr>geo_city = PStr ''Krakow'', latlng = (Some 50, Some 20)\<rparr>),
      get_coordinates_for_city_name = (\<lambda>h c. Inr (None, None)),
      get_weather_for_coordinates =
        (\<lambda>h la lo. Inr (Some \<lparr>description = ''clear sky'', temp = ''21.5''\<rparr>)),
      take_screenshot = (\<lambda>h g. Inr 0),
      find_text_in_screenshot = (\<lambda>h s t. Inr None)\<rparr>"

section \<open>Runs of start calls and thread steps\<close>

text \<open>
  The threads whose target is the wrapper of \<^verbatim>\<open>start_checking_new_emails\<close>,
  counted whether they still run or not.
\<close>

definition mail_workers :: "world \<Rightarrow> nat" where
  "mail_workers w =
     length (filter (\<lambda>t. case target t of CheckNewEmailsWrapper a \<Rightarrow> True
                          | AcceptGameWrapper \<Rightarrow> False) (threads w))"



section \<open>Basic facts\<close>

declare str_nat.simps [simp del]

lemma emit_fields [simp]:
  "active_jobs (emit e w) = active_jobs w"
  "threads (emit e w) = threads w"
  "trace (emit e w) = trace w @ [e]"
  by (simp_all add: emit_def)

lemma start_thread_fields [simp]:
  "active_jobs (start_thread tg w) = active_jobs w"
  "threads (start_thread tg w) = threads w @ [\<lparr>target = tg, daemon = True, tstate = AtLoopHead\<rparr>]"
  "trace (start_thread tg w) = trace w"
  by (simp_all add: start_thread_def)

lemma set_tstate_fields [simp]:
  "active_jobs (set_tstate tid st w) = active_jobs w"
  "threads (set_tstate tid st w) = (threads w)[tid := (threads w ! tid)\<lparr>tstate := st\<rparr>]"
  "trace (set_tstate tid st w) = trace w"
  by (simp_all add: set_tstate_def)

lemma accept_game_fields:
  "fst (accept_game w) = Return PNone"
  "threads (snd (accept_game w)) =
     threads w @ [\<lparr>target = AcceptGameWrapper, daemon = True, tstate = AtLoopHead\<rparr>]"
  "active_jobs (snd (accept_game w)) = active_jobs w"
  by (simp_all add: accept_game_def Let_def)

section \<open>The accept-game watcher is started at every call\<close>

text \<open>
  C8. Every call of \<^verbatim>\<open>accept_game\<close>, also through the dispatcher's call, returns
  \<^verbatim>\<open>None\<close>, appends one new daemon thread running the watcher, whatever
  threads the world already has, and leaves the job map as it was; \<open>n\<close> calls in a
  row append \<open>n\<close> watchers.
\<close>

theorem accept_game_spawns_every_time:
  "call_job AcceptGame env sched kwargs w = Some (accept_game w)
   \<and> fst (accept_game w) = Return PNone
   \<and> threads (snd (accept_game w)) =
       threads w @ [\<lparr>target = AcceptGameWrapper, daemon = True, tstate = AtLoopHead\<rparr>]
   \<and> active_jobs (snd (accept_game w)) = active_jobs w
   \<and> threads (((\<lambda>v. snd (accept_game v)) ^^ n) w) =
       threads w @ replicate n \<lparr>target = AcceptGameWrapper, daemon = True, tstate = AtLoopHead\<rparr>
   \<and> active_jobs (((\<lambda>v. snd (accept_game v)) ^^ n) w) = active_jobs w"
proof -
  have many: "threads (((\<lambda>v. snd (accept_game v)) ^^ n) w) =
       threads w @ replicate n \<lparr>target = AcceptGameWrapper, daemon = True, tstate = AtLoopHead\<rparr>
     \<and> active_jobs (((\<lambda>v. snd (accept_game v)) ^^ n) w) = active_jobs w"
  proof (induction n)
    case 0
    show ?case by simp
  next
    case (Suc n)
    then show ?case
      by (simp add: accept_game_fields replicate_append_same)
  qed
  show ?thesis
    using many by (simp add: accept_game_fields)
qed

theorem accept_game_spawns_every_time_witness:
  "threads (((\<lambda>v. snd (accept_game v)) ^^ 2)
      (snd (start_checking_new_emails example_env [0] (PBool False) initial_world))) =
     [\<lparr>target = CheckNewEmailsWrapper (PBool False), daemon = True, tstate = Finished None\<rparr>,
      \<lparr>target = AcceptGameWrapper, daemon = True, tstate = AtLoopHead\<rparr>,
      \<lparr>target = AcceptGameWrapper, daemon = True, tstate = AtLoopHead\<rparr>]
   \<and> dom (active_jobs (((\<lambda>v. snd (accept_game v)) ^^ 2)
      (snd (start_checking_new_emails example_env [0] (PBool False) initial_world)))) =
     {''check_new_emails''}"
  using accept_game_spawns_every_time
    [of example_env "[]" Map.empty
      "snd (start_checking_new_emails example_env [0] (PBool False) initial_world)" 2]
  by (simp add: start_checking_new_emails_def initial_world_def Let_def numeral_2_eq_2
      thread_step_def check_new_emails_wrapper_step_def)

section \<open>Stopping when nothing runs\<close>

text \<open>
  C5, as the code has it. When no job is recorded under \<^verbatim>\<open>"check_new_emails"\<close>,
  \<^verbatim>\<open>stop_checking_new_emails\<close> returns at once, for every environment and every
  schedule; it returns \<^verbatim>\<open>None\<close>, the job map and the threads are as before,
  and the one effect is the line it prints.
\<close>

theorem stop_without_job:
  "active_jobs w ''check_new_emails'' = None \<Longrightarrow>
   stop_checking_new_emails env sched w =
     Some (Return PNone, w\<lparr>trace := trace w @ [Print ''Stopping checking new emails...'']\<rparr>)"
  by (simp add: stop_checking_new_emails_def Let_def emit_def)

theorem stop_without_job_witness:
  "active_jobs (snd (accept_game initial_world)) ''check_new_emails'' = None
   \<and> stop_checking_new_emails example_env [0, 0] (snd (accept_game initial_world)) =
     Some (Return PNone,
       \<lparr>active_jobs = Map.empty,
        threads = [\<lparr>target = AcceptGameWrapper, daemon = True, tstate = AtLoopHead\<rparr>],
        trace = [Print ''Accepting game...'', Print ''Stopping checking new emails...'']\<rparr>)"
proof -
  have h: "active_jobs (snd (accept_game initial_world)) ''check_new_emails'' = None"
    by (simp add: accept_game_def initial_world_def Let_def)
  show ?thesis
    using h stop_without_job [OF h, of example_env "[0, 0]"]
    by (simp add: accept_game_def initial_world_def Let_def emit_def start_thread_def)
qed

text \<open>
  Against the wording of the specification: on the empty job map the call returns \<^verbatim>\<open>None\<close>,
  not \<^verbatim>\<open>False\<close>, and the world it leaves has one more line of output.
\<close>

theorem stop_without_job_counterexample:
  "stop_checking_new_emails example_env [] initial_world =
     Some (Return PNone, emit (Print ''Stopping checking new emails...'') initial_world)
   \<and> stop_checking_new_emails example_env [] initial_world \<noteq>
     Some (Return (PBool False), initial_world)"
  by (simp add: stop_checking_new_emails_def initial_world_def Let_def)

section \<open>The help message\<close>

text \<open>
  C6, as the code has it. \<^verbatim>\<open>help\<close> prints a progress line, asks
  \<^verbatim>\<open>Commands.get_all_commands()\<close> for the names, and then writes one
  sentence, spoken when \<^verbatim>\<open>audio\<close> is true and printed otherwise: the names
  joined with \<^verbatim>\<open>", "\<close>, between \<^verbatim>\<open>"Available commands are: "\<close> and a
  full stop.
\<close>

theorem help_output:
  "get_all_commands env (trace w @ [Print ''Getting all commands...'']) = Inr commands \<Longrightarrow>
   help_action env audio w =
     (Return PNone,
      w\<lparr>trace := trace w @
          [Print ''Getting all commands...'', GetAllCommands,
           (if truthy audio then Speak else Print)
             (''Available commands are: '' @ join_str '', '' commands @ ''.'')]\<rparr>)"
  by (simp add: help_action_def Let_def emit_def)

theorem help_output_witness:
  "get_all_commands example_env (trace initial_world @ [Print ''Getting all commands...'']) =
     Inr [''help'', ''exit'']
   \<and> help_action example_env (PBool True) initial_world =
     (Return PNone,
      \<lparr>active_jobs = Map.empty, threads = [],
       trace = [Print ''Getting all commands...'', GetAllCommands,
                Speak ''Available commands are: help, exit.'']\<rparr>)"
proof -
  have h: "get_all_commands example_env (trace initial_world @ [Print ''Getting all commands...'']) =
     Inr [''help'', ''exit'']"
    by (simp add: example_env_def)
  show ?thesis
    using h help_output [OF h, of "PBool True"]
    by (simp add: initial_world_def)
qed

text \<open>
  Against the wording of the specification: with the names \<^verbatim>\<open>help\<close> and \<^verbatim>\<open>exit\<close>
  the joined list is \<^verbatim>\<open>"help, exit"\<close>, and no output of the call is that text.
\<close>

theorem help_output_counterexample:
  "trace (snd (help_action example_env (PBool False) initial_world)) =
     [Print ''Getting all commands...'', GetAllCommands,
      Print ''Available commands are: help, exit.'']
   \<and> join_str '', '' [''help'', ''exit''] = ''help, exit''
   \<and> Print (join_str '', '' [''help'', ''exit'']) \<notin>
       set (trace (snd (help_action example_env (PBool False) initial_world)))
   \<and> Speak (join_str '', '' [''help'', ''exit'']) \<notin>
       set (trace (snd (help_action example_env (PBool False) initial_world)))"
  by (simp add: help_action_def example_env_def initial_world_def Let_def)

section \<open>The weather action\<close>

text \<open>
  C7, as the code has it. \<^verbatim>\<open>weather\<close> is called with a city that is neither
  \<^verbatim>\<open>None\<close> nor empty. When the coordinates collaborator answers a pair with
  \<^verbatim>\<open>None\<close> for the latitude or the longitude, the action prints the error and
  returns. When the collaborator raises, the exception leaves \<^verbatim>\<open>weather\<close> and
  no error is printed. In both cases nothing happens after the call of the coordinates
  collaborator but, in the first, the error line: the weather collaborator is not called.
\<close>

theorem weather_coordinates_failure:
  "city \<noteq> PNone \<Longrightarrow> city \<noteq> PStr '''' \<Longrightarrow>
   (get_coordinates_for_city_name env (trace w @ [Print ''Getting weather...'']) city =
      Inr (lat, lon) \<and> (lat = None \<or> lon = None) \<longrightarrow>
    weather env city audio w =
     (Return PNone,
      w\<lparr>trace := trace w @
          [Print ''Getting weather...'', GetCoordinatesForCityName city,
           Print ''Error: Could not retrieve coordinates for the given city.'']\<rparr>))
   \<and> (get_coordinates_for_city_name env (trace w @ [Print ''Getting weather...'']) city = Inl e
      \<longrightarrow>
    weather env city audio w =
     (Raise e,
      w\<lparr>trace := trace w @ [Print ''Getting weather...'', GetCoordinatesForCityName city]\<rparr>))"
  by (auto simp add: weather_def Let_def emit_def)

theorem weather_coordinates_failure_witness:
  "weather example_env (PStr ''Paris'') (PBool True) initial_world =
     (Return PNone,
      \<lparr>active_jobs = Map.empty, threads = [],
       trace = [Print ''Getting weather...'', GetCoordinatesForCityName (PStr ''Paris''),
                Print ''Error: Could not retrieve coordinates for the given city.'']\<rparr>)
   \<and> weather
       (example_env\<lparr>get_coordinates_for_city_name :=
          (\<lambda>h c. Inl (CollaboratorError ''geocoding unreachable''))\<rparr>)
       (PStr ''Paris'') (PBool True) initial_world =
     (Raise (CollaboratorError ''geocoding unreachable''),
      \<lparr>active_jobs = Map.empty, threads = [],
       trace = [Print ''Getting weather...'', GetCoordinatesForCityName (PStr ''Paris'')]\<rparr>)"
  using weather_coordinates_failure
      [where city = "PStr ''Paris''" and env = example_env and w = initial_world
         and lat = None and lon = None and audio = "PBool True"]
    weather_coordinates_failure
      [where city = "PStr ''Paris''" and w = initial_world and audio = "PBool True"
         and env = "example_env\<lparr>get_coordinates_for_city_name :=
            (\<lambda>h c. Inl (CollaboratorError ''geocoding unreachable''))\<rparr>"
         and e = "CollaboratorError ''geocoding unreachable''"]
  by (simp add: example_env_def initial_world_def)

text \<open>
  Against the wording of the specification: the coordinates collaborator fails by raising.
  No error is reported, on either output channel; the exception leaves
  \<^verbatim>\<open>weather\<close>, and it leaves \<^verbatim>\<open>job_on_command\<close> when the resolver
  has named \<^verbatim>\<open>weather\<close> with the city.
\<close>

theorem weather_coordinates_failure_counterexample:
  "weather
     (example_env\<lparr>get_coordinates_for_city_name :=
        (\<lambda>h c. Inl (CollaboratorError ''geocoding unreachable''))\<rparr>)
     (PStr ''Paris'') (PBool False) initial_world =
   (Raise (CollaboratorError ''geocoding unreachable''),
    \<lparr>active_jobs = Map.empty, threads = [],
     trace = [Print ''Getting weather...'', GetCoordinatesForCityName (PStr ''Paris'')]\<rparr>)
   \<and> job_on_command (Employer (PBool False))
     (example_env\<lparr>get_function_to_call :=
        (\<lambda>h u fs. Inr (Some \<lparr>resp_name = ''weather'',
                               resp_args = [''city'' \<mapsto> PStr ''Paris'']\<rparr>)),
        get_coordinates_for_city_name :=
        (\<lambda>h c. Inl (CollaboratorError ''geocoding unreachable''))\<rparr>)
     [] ''weather in Paris'' initial_world =
   Some (Raise (CollaboratorError ''geocoding unreachable''),
    \<lparr>active_jobs = Map.empty, threads = [],
     trace = [GetFunctionToCall ''weather in Paris'' (available_functions (Employer (PBool False))),
              Print ''Getting weather...'', GetCoordinatesForCityName (PStr ''Paris'')]\<rparr>)"
  by (simp add: weather_def job_on_command_def Employer_def kwarg_def example_env_def
      initial_world_def emit_def Let_def)

lemma weather_no_city_trace:
  assumes "city = PNone \<or> city = PStr ''''"
  shows "\<exists>evs. trace (snd (weather env city audio w)) =
           trace w @ Print ''Getting weather...'' # GeocoderIp ''me'' # evs
         \<and> (\<forall>c. GetCoordinatesForCityName c \<notin> set evs)"
  using assms
  by (auto simp add: weather_def Let_def split: sum.splits option.splits prod.splits)

lemma weather_city_trace:
  assumes "city \<noteq> PNone" "city \<noteq> PStr ''''"
  shows "\<exists>evs. trace (snd (weather env city audio w)) =
           trace w @ Print ''Getting weather...'' # GetCoordinatesForCityName city # evs
         \<and> (\<forall>a. GeocoderIp a \<notin> set evs)"
  using assms
  by (auto simp add: weather_def Let_def split: sum.splits option.splits prod.splits)

lemma weather_no_city_result:
  assumes "city = PNone \<or> city = PStr ''''"
    and "geocoder_ip env (trace w @ [Print ''Getting weather...'']) ''me'' = Inr g"
    and "latlng g = (Some la, Some lo)"
    and "get_weather_for_coordinates env
           (trace w @ [Print ''Getting weather...'', GeocoderIp ''me'']) la lo = Inr (Some wi)"
  shows "weather env city audio w =
     (Return PNone,
      w\<lparr>trace := trace w @
          [Print ''Getting weather...'', GeocoderIp ''me'', GetWeatherForCoordinates la lo,
           (if truthy audio then Speak else Print)
             (''The weather for '' @ py_str (geo_city g) @ '' is '' @ description wi
              @ '' with '' @ temp wi @ [CHR 0xC2, CHR 0xB0] @ ''C.'')]\<rparr>)"
  using assms
  by (auto simp add: weather_def Let_def emit_def)

lemma weather_no_city_indep:
  assumes "city = PNone \<or> city = PStr ''''"
  shows "weather (env\<lparr>get_coordinates_for_city_name := f\<rparr>) city audio w = weather env city audio w"
  using assms
  by (auto simp add: weather_def Let_def split: sum.splits prod.splits)

text \<open>
  C10. When the city is \<^verbatim>\<open>None\<close> or the empty string, the call after the
  progress line is \<^verbatim>\<open>geocoder.ip("me")\<close>, the coordinates collaborator is not
  called at all and what it would answer changes nothing, and the coordinates looked up
  and the city named in the message are the geolocation's. When a city is given, the call
  after the progress line is the coordinates collaborator's, with that city, and the
  geolocation is not asked.
\<close>

theorem weather_city_source:
  "(city = PNone \<or> city = PStr '''' \<longrightarrow>
      (\<exists>evs. trace (snd (weather env city audio w)) =
           trace w @ Print ''Getting weather...'' # GeocoderIp ''me'' # evs
         \<and> (\<forall>c. GetCoordinatesForCityName c \<notin> set evs))
      \<and> weather (env\<lparr>get_coordinates_for_city_name := f\<rparr>) city audio w = weather env city audio w
      \<and> (geocoder_ip env (trace w @ [Print ''Getting weather...'']) ''me'' = Inr g
           \<and> latlng g = (Some la, Some lo)
           \<and> get_weather_for_coordinates env
                 (trace w @ [Print ''Getting weather...'', GeocoderIp ''me'']) la lo = Inr (Some wi)
         \<longrightarrow> weather env city audio w =
               (Return PNone,
                w\<lparr>trace := trace w @
                  [Print ''Getting weather...'', GeocoderIp ''me'', GetWeatherForCoordinates la lo,
                   (if truthy audio then Speak else Print)
                     (''The weather for '' @ py_str (geo_city g) @ '' is '' @ description wi
                      @ '' with '' @ temp wi @ [CHR 0xC2, CHR 0xB0] @ ''C.'')]\<rparr>)))
   \<and> (city \<noteq> PNone \<and> city \<noteq> PStr '''' \<longrightarrow>
      (\<exists>evs. trace (snd (weather env city audio w)) =
           trace w @ Print ''Getting weather...'' # GetCoordinatesForCityName city # evs
         \<and> (\<forall>a. GeocoderIp a \<notin> set evs)))"
  using weather_no_city_trace [of city env audio w] weather_city_trace [of city env audio w]
    weather_no_city_result [of city env w g la lo wi audio]
    weather_no_city_indep [where city = city and env = env and f = f and audio = audio and w = w]
  by blast

theorem weather_city_source_witness:
  "weather example_env PNone (PBool True) initial_world =
     (Return PNone,
      \<lparr>active_jobs = Map.empty, threads = [],
       trace = [Print ''Getting weather...'', GeocoderIp ''me'', GetWeatherForCoordinates 50 20,
                Speak (''The weather for Krakow is clear sky with 21.5'' @ [CHR 0xC2, CHR 0xB0] @ ''C.'')]\<rparr>)
   \<and> (\<exists>evs. trace (snd (weather example_env (PStr ''Paris'') (PBool True) initial_world)) =
           trace initial_world @ Print ''Getting weather...'' # GetCoordinatesForCityName (PStr ''Paris'') # evs
         \<and> (\<forall>a. GeocoderIp a \<notin> set evs))"
  using weather_city_source [where city = PNone and env = example_env and audio = "PBool True"
      and w = initial_world and f = "get_coordinates_for_city_name example_env"
      and g = "\<lparr>geo_city = PStr ''Krakow'', latlng = (Some 50, Some 20)\<rparr>"
      and la = 50 and lo = 20
      and wi = "\<lparr>description = ''clear sky'', temp = ''21.5''\<rparr>"]
    weather_city_source [where city = "PStr ''Paris''" and env = example_env
      and audio = "PBool True" and w = initial_world]
  by (simp add: example_env_def initial_world_def)

section \<open>The dispatcher and what a method raises\<close>

text \<open>
  C3, as the code has it. \<^verbatim>\<open>job_on_command\<close> catches nothing: when the method
  it calls raises, the same exception leaves \<^verbatim>\<open>job_on_command\<close>, and the
  world is the one the method left, so the dispatcher itself reports nothing.
\<close>

theorem handler_exception_propagates:
  "get_function_to_call env (trace w) user_input (available_functions self) = Inr (Some r) \<Longrightarrow>
   map_of (available_jobs self) (resp_name r) = Some job \<Longrightarrow>
   call_job job env sched ((resp_args r)(''audio'' \<mapsto> self_audio self))
     (emit (GetFunctionToCall user_input (available_functions self)) w) = Some (Raise e, w') \<Longrightarrow>
   job_on_command self env sched user_input w = Some (Raise e, w')"
  by (simp add: job_on_command_def Let_def)

theorem handler_exception_propagates_witness:
  "job_on_command (Employer (PBool False))
     (example_env\<lparr>get_function_to_call :=
        (\<lambda>h u fs. Inr (Some \<lparr>resp_name = ''check_new_emails'', resp_args = Map.empty\<rparr>)),
        get_new_messages := (\<lambda>h. Inl (CollaboratorError ''mailbox unreachable''))\<rparr>)
     [] ''any mail?'' initial_world =
   Some (Raise (CollaboratorError ''mailbox unreachable''),
     \<lparr>active_jobs = Map.empty, threads = [],
      trace = [GetFunctionToCall ''any mail?'' (available_functions (Employer (PBool False))),
               Print ''Checking new emails...'', GetNewMessages]\<rparr>)"
  using handler_exception_propagates
    [where env = "example_env\<lparr>get_function_to_call :=
        (\<lambda>h u fs. Inr (Some \<lparr>resp_name = ''check_new_emails'', resp_args = Map.empty\<rparr>)),
        get_new_messages := (\<lambda>h. Inl (CollaboratorError ''mailbox unreachable''))\<rparr>"
      and w = initial_world and user_input = "''any mail?''" and self = "Employer (PBool False)"
      and r = "\<lparr>resp_name = ''check_new_emails'', resp_args = Map.empty\<rparr>"
      and job = CheckNewEmails and sched = "[]"
      and e = "CollaboratorError ''mailbox unreachable''"
      and w' = "\<lparr>active_jobs = Map.empty, threads = [],
      trace = [GetFunctionToCall ''any mail?'' (available_functions (Employer (PBool False))),
               Print ''Checking new emails...'', GetNewMessages]\<rparr>"]
  by (simp add: Employer_def example_env_def initial_world_def check_new_emails_def kwarg_def
      emit_def Let_def)

text \<open>
  Against the wording of the specification: the resolver names \<^verbatim>\<open>ask_question\<close> and gives
  no \<^verbatim>\<open>question\<close>; the call raises \<^verbatim>\<open>TypeError\<close>, which leaves
  \<^verbatim>\<open>job_on_command\<close>, and nothing was printed or spoken.
\<close>

theorem handler_exception_counterexample:
  "job_on_command (Employer (PBool False))
     (example_env\<lparr>get_function_to_call :=
        (\<lambda>h u fs. Inr (Some \<lparr>resp_name = ''ask_question'', resp_args = Map.empty\<rparr>))\<rparr>)
     [] ''why'' initial_world =
   Some (Raise TypeError,
     \<lparr>active_jobs = Map.empty, threads = [],
      trace = [GetFunctionToCall ''why'' (available_functions (Employer (PBool False)))]\<rparr>)"
  by (simp add: job_on_command_def Employer_def example_env_def initial_world_def emit_def Let_def)

section \<open>A resolver answer that names no action\<close>

text \<open>
  C4, at the two ways a resolution fails. When the resolver answers
  \<^verbatim>\<open>None\<close>, \<^verbatim>\<open>job_on_command\<close> prints the error line and calls no
  method. When it answers a name that is not a key of \<^verbatim>\<open>available_jobs\<close>,
  no method is called either, but nothing at all is written: the only event is the
  resolver's call.
\<close>

theorem unresolved_command:
  "(get_function_to_call env (trace w) user_input (available_functions self) = Inr None \<longrightarrow>
      job_on_command self env sched user_input w =
        Some (Return PNone,
          w\<lparr>trace := trace w @
            [GetFunctionToCall user_input (available_functions self),
             Print ''Error: Could not determine function to call.'']\<rparr>))
   \<and> (get_function_to_call env (trace w) user_input (available_functions self) = Inr (Some r)
        \<and> map_of (available_jobs self) (resp_name r) = None \<longrightarrow>
      job_on_command self env sched user_input w =
        Some (Return PNone,
          w\<lparr>trace := trace w @ [GetFunctionToCall user_input (available_functions self)]\<rparr>))"
  by (simp add: job_on_command_def Let_def emit_def)

theorem unresolved_command_witness:
  "job_on_command (Employer (PBool False)) example_env [] ''hm'' initial_world =
     Some (Return PNone,
       \<lparr>active_jobs = Map.empty, threads = [],
        trace = [GetFunctionToCall ''hm'' (available_functions (Employer (PBool False))),
                 Print ''Error: Could not determine function to call.'']\<rparr>)
   \<and> job_on_command (Employer (PBool False))
       (example_env\<lparr>get_function_to_call :=
          (\<lambda>h u fs. Inr (Some \<lparr>resp_name = ''dance'', resp_args = Map.empty\<rparr>))\<rparr>)
       [] ''dance'' initial_world =
     Some (Return PNone,
       \<lparr>active_jobs = Map.empty, threads = [],
        trace = [GetFunctionToCall ''dance'' (available_functions (Employer (PBool False)))]\<rparr>)"
  using unresolved_command
    [where env = example_env and w = initial_world and user_input = "''hm''"
       and self = "Employer (PBool False)" and sched = "[]"
       and r = "\<lparr>resp_name = ''dance'', resp_args = Map.empty\<rparr>"]
    unresolved_command
    [where env = "example_env\<lparr>get_function_to_call :=
          (\<lambda>h u fs. Inr (Some \<lparr>resp_name = ''dance'', resp_args = Map.empty\<rparr>))\<rparr>"
       and w = initial_world and user_input = "''dance''"
       and self = "Employer (PBool False)" and sched = "[]"
       and r = "\<lparr>resp_name = ''dance'', resp_args = Map.empty\<rparr>"]
  by (simp add: Employer_def example_env_def initial_world_def)

section \<open>What a thread's step leaves alone\<close>

lemma check_new_emails_loop_keeps:
  "active_jobs (snd (check_new_emails_loop env audio messages w)) = active_jobs w
   \<and> threads (snd (check_new_emails_loop env audio messages w)) = threads w"
  by (induction messages arbitrary: w) (simp_all add: Let_def split: sum.splits)

lemma check_new_emails_keeps [simp]:
  "active_jobs (snd (check_new_emails env audio w)) = active_jobs w"
  "threads (snd (check_new_emails env audio w)) = threads w"
  by (simp_all add: check_new_emails_def Let_def check_new_emails_loop_keeps split: sum.splits)

lemma thread_step_jobs [simp]:
  "active_jobs (thread_step env t w) = active_jobs w"
  by (simp add: thread_step_def check_new_emails_wrapper_step_def accept_game_wrapper_step_def
      Let_def split: target.splits tstate.splits sum.splits option.splits outcome.splits)

lemma thread_step_length [simp]:
  "length (threads (thread_step env t w)) = length (threads w)"
  by (simp add: thread_step_def check_new_emails_wrapper_step_def accept_game_wrapper_step_def
      Let_def split: target.splits tstate.splits sum.splits option.splits outcome.splits)

lemma thread_step_other:
  "i \<noteq> t \<Longrightarrow> threads (thread_step env t w) ! i = threads w ! i"
  by (simp add: thread_step_def check_new_emails_wrapper_step_def accept_game_wrapper_step_def
      Let_def split: target.splits tstate.splits sum.splits option.splits outcome.splits)

lemma thread_step_targets:
  "map target (threads (thread_step env t w)) = map target (threads w)"
  by (simp add: thread_step_def check_new_emails_wrapper_step_def accept_game_wrapper_step_def
      Let_def map_update list_update_same_conv
      split: target.splits tstate.splits sum.splits option.splits outcome.splits)

lemma thread_step_target:
  "tid < length (threads w) \<Longrightarrow>
   target (threads (thread_step env t w) ! tid) = target (threads w ! tid)"
proof -
  assume b: "tid < length (threads w)"
  have "map target (threads (thread_step env t w)) ! tid = map target (threads w) ! tid"
    by (simp add: thread_step_targets)
  with b show ?thesis
    by simp
qed

lemma thread_step_finished:
  "tstate (threads w ! tid) = Finished x \<Longrightarrow>
   tstate (threads (thread_step env t w) ! tid) = Finished x"
proof (cases "t = tid")
  case True
  assume "tstate (threads w ! tid) = Finished x"
  with True show ?thesis
    by (simp add: thread_step_def check_new_emails_wrapper_step_def accept_game_wrapper_step_def
        split: target.splits)
next
  case False
  assume "tstate (threads w ! tid) = Finished x"
  with False show ?thesis
    using thread_step_other [of tid t env w] by simp
qed

lemma run_threads_jobs [simp]:
  "active_jobs (run_threads env sched w) = active_jobs w"
  by (induction sched arbitrary: w) simp_all

lemma run_threads_length [simp]:
  "length (threads (run_threads env sched w)) = length (threads w)"
  by (induction sched arbitrary: w) simp_all

lemma run_threads_targets:
  "map target (threads (run_threads env sched w)) = map target (threads w)"
  by (induction sched arbitrary: w) (simp_all add: thread_step_targets)

lemma run_threads_finished:
  "tstate (threads w ! tid) = Finished x \<Longrightarrow>
   tstate (threads (run_threads env sched w) ! tid) = Finished x"
  by (induction sched arbitrary: w) (simp_all add: thread_step_finished)

lemma run_threads_other:
  "tid \<notin> set sched \<Longrightarrow> threads (run_threads env sched w) ! tid = threads w ! tid"
  by (induction sched arbitrary: w) (simp_all add: thread_step_other)

section \<open>The audio flag of a dispatched call\<close>

text \<open>
  No method and no thread asks the resolver: replacing \<^verbatim>\<open>AI.get_function_to_call\<close>
  changes nothing below the dispatcher.
\<close>

lemma check_new_emails_loop_resolver [simp]:
  "check_new_emails_loop (env\<lparr>get_function_to_call := f\<rparr>) audio messages w =
   check_new_emails_loop env audio messages w"
  by (induction messages arbitrary: w) (simp_all add: Let_def cong: sum.case_cong if_cong)

lemma check_new_emails_resolver [simp]:
  "check_new_emails (env\<lparr>get_function_to_call := f\<rparr>) audio w = check_new_emails env audio w"
  by (simp add: check_new_emails_def Let_def cong: sum.case_cong if_cong)

lemma thread_step_resolver [simp]:
  "thread_step (env\<lparr>get_function_to_call := f\<rparr>) t w = thread_step env t w"
  by (simp add: thread_step_def check_new_emails_wrapper_step_def accept_game_wrapper_step_def
      Let_def cong: target.case_cong tstate.case_cong sum.case_cong option.case_cong if_cong)

lemma run_threads_resolver [simp]:
  "run_threads (env\<lparr>get_function_to_call := f\<rparr>) sched w = run_threads env sched w"
  by (induction sched arbitrary: w) simp_all

lemma join_resolver [simp]:
  "join (env\<lparr>get_function_to_call := f\<rparr>) sched tid w = join env sched tid w"
  by (induction sched arbitrary: w) simp_all

lemma call_job_resolver:
  "call_job job (env\<lparr>get_function_to_call := f\<rparr>) sched kwargs w = call_job job env sched kwargs w"
  by (cases job)
    (simp_all add: help_action_def ask_question_def weather_def stop_checking_new_emails_def
       start_checking_new_emails_def
       Let_def cong: sum.case_cong option.case_cong prod.case_cong if_cong)

lemma audio_overwritten:
  assumes "\<forall>k. k \<noteq> ''audio'' \<longrightarrow> args2 k = args1 k"
  shows "args2(''audio'' \<mapsto> a) = args1(''audio'' \<mapsto> a)"
  using assms by (auto simp add: fun_eq_iff)

text \<open>
  Every method returns \<^verbatim>\<open>None\<close> when it returns, so what
  \<^verbatim>\<open>job_on_command\<close> gives back is what the method gave.
\<close>

lemma check_new_emails_loop_value:
  "fst (check_new_emails_loop env audio messages w) = Return v \<Longrightarrow> v = PNone"
  by (induction messages arbitrary: w) (auto simp add: Let_def split: sum.splits if_splits)

lemma method_values:
  "fst (help_action env audio w) = Return v \<Longrightarrow> v = PNone"
  "fst (ask_question env question audio w) = Return v \<Longrightarrow> v = PNone"
  "fst (check_new_emails env audio w) = Return v \<Longrightarrow> v = PNone"
  "fst (start_checking_new_emails env sched audio w) = Return v \<Longrightarrow> v = PNone"
  "fst (weather env city audio w) = Return v \<Longrightarrow> v = PNone"
  "fst (accept_game w) = Return v \<Longrightarrow> v = PNone"
  "fst (idle_mouse w) = Return v \<Longrightarrow> v = PNone"
  "fst (queue_up w) = Return v \<Longrightarrow> v = PNone"
  "fst (close_computer audio w) = Return v \<Longrightarrow> v = PNone"
  "fst (exit audio w) = Return v \<Longrightarrow> v = PNone"
  by (auto simp add: help_action_def ask_question_def check_new_emails_def
      start_checking_new_emails_def weather_def accept_game_def idle_mouse_def queue_up_def
      close_computer_def exit_def Let_def
      dest: check_new_emails_loop_value split: sum.splits option.splits if_splits prod.splits)

lemma method_pairs:
  "help_action env audio w = (Return v, w') \<Longrightarrow> v = PNone"
  "ask_question env question audio w = (Return v, w') \<Longrightarrow> v = PNone"
  "check_new_emails env audio w = (Return v, w') \<Longrightarrow> v = PNone"
  "start_checking_new_emails env sched audio w = (Return v, w') \<Longrightarrow> v = PNone"
  "weather env city audio w = (Return v, w') \<Longrightarrow> v = PNone"
  "accept_game w = (Return v, w') \<Longrightarrow> v = PNone"
  "idle_mouse w = (Return v, w') \<Longrightarrow> v = PNone"
  "queue_up w = (Return v, w') \<Longrightarrow> v = PNone"
  "close_computer audio w = (Return v, w') \<Longrightarrow> v = PNone"
  "exit audio w = (Return v, w') \<Longrightarrow> v = PNone"
  by (auto dest!: arg_cong [where f = fst] dest: method_values)

lemma stop_value:
  "stop_checking_new_emails env sched w = Some res \<Longrightarrow> fst res = Return v \<Longrightarrow> v = PNone"
  by (auto simp add: stop_checking_new_emails_def Let_def split: option.splits if_splits)

lemma given_back:
  assumes "\<And>v. fst res = Return v \<Longrightarrow> v = PNone"
  shows "(case fst res of Return v \<Rightarrow> Some (Return PNone, snd res) | _ \<Rightarrow> Some res) = Some res"
proof (cases "fst res")
  case (Return v)
  with assms have "fst res = Return PNone"
    by simp
  then have "res = (Return PNone, snd res)"
    by (cases res) simp
  with Return show ?thesis
    by simp
qed simp_all

lemma dispatched:
  assumes "get_function_to_call env (trace w) user_input (available_functions (Employer flag)) =
      Inr (Some r)"
    and "map_of (available_jobs (Employer flag)) (resp_name r) = Some job"
    and "call_job job env sched ((resp_args r)(''audio'' \<mapsto> flag))
           (emit (GetFunctionToCall user_input (available_functions (Employer flag))) w) = res"
    and "\<And>v. map_option fst res = Some (Return v) \<Longrightarrow> v = PNone"
  shows "job_on_command (Employer flag) env sched user_input w = res"
proof (cases res)
  case None
  with assms(1-3) show ?thesis
    by (simp add: job_on_command_def Let_def Employer_def)
next
  case (Some x)
  have "(case fst x of Return v \<Rightarrow> Some (Return PNone, snd x) | _ \<Rightarrow> Some x) = Some x"
    using assms(4) Some by (intro given_back) simp
  with assms(1-3) Some show ?thesis
    by (simp add: job_on_command_def Let_def Employer_def)
qed

text \<open>
  C9. An \<^verbatim>\<open>Employer\<close> built with a flag keeps it as \<^verbatim>\<open>self.audio\<close>,
  and whatever the resolver answers, each method that has an \<^verbatim>\<open>audio\<close>
  parameter is called with that flag: the run of \<^verbatim>\<open>job_on_command\<close> is the
  run of the method on the flag (and on the resolver's other arguments), after the
  resolver's call. The four methods without the parameter run as they always do. And two
  resolvers whose answers to this call name the same action with the same arguments except
  under \<^verbatim>\<open>"audio"\<close> give the same run of \<^verbatim>\<open>job_on_command\<close>.
\<close>

theorem audio_is_the_employers_flag:
  assumes "get_function_to_call env (trace w) user_input (available_functions (Employer flag)) =
      Inr (Some r)"
    and "w1 = emit (GetFunctionToCall user_input (available_functions (Employer flag))) w"
  shows "self_audio (Employer flag) = flag
    \<and> (resp_name r = ''help'' \<longrightarrow>
         job_on_command (Employer flag) env sched user_input w =
           Some (help_action env flag w1))
    \<and> (resp_name r = ''ask_question'' \<longrightarrow>
         job_on_command (Employer flag) env sched user_input w =
           (case resp_args r ''question'' of
              None \<Rightarrow> Some (Raise TypeError, w1)
            | Some question \<Rightarrow> Some (ask_question env question flag w1)))
    \<and> (resp_name r = ''check_new_emails'' \<longrightarrow>
         job_on_command (Employer flag) env sched user_input w =
           Some (check_new_emails env flag w1))
    \<and> (resp_name r = ''start_checking_new_emails'' \<longrightarrow>
         job_on_command (Employer flag) env sched user_input w =
           Some (start_checking_new_emails env sched flag w1))
    \<and> (resp_name r = ''weather'' \<longrightarrow>
         job_on_command (Employer flag) env sched user_input w =
           Some (weather env (kwarg (resp_args r) ''city'' PNone) flag w1))
    \<and> (resp_name r = ''close_computer'' \<longrightarrow>
         job_on_command (Employer flag) env sched user_input w =
           Some (close_computer flag w1))
    \<and> (resp_name r = ''exit'' \<longrightarrow>
         job_on_command (Employer flag) env sched user_input w = Some (exit flag w1))
    \<and> (resp_name r = ''stop_checking_new_emails'' \<longrightarrow>
         job_on_command (Employer flag) env sched user_input w =
           stop_checking_new_emails env sched w1)
    \<and> (resp_name r = ''accept_game'' \<longrightarrow>
         job_on_command (Employer flag) env sched user_input w = Some (accept_game w1))
    \<and> (resp_name r = ''idle_mouse'' \<longrightarrow>
         job_on_command (Employer flag) env sched user_input w = Some (idle_mouse w1))
    \<and> (resp_name r = ''queue_up'' \<longrightarrow>
         job_on_command (Employer flag) env sched user_input w = Some (queue_up w1))
    \<and> (f (trace w) user_input (available_functions (Employer flag)) = Inr (Some r')
        \<and> resp_name r' = resp_name r
        \<and> (\<forall>k. k \<noteq> ''audio'' \<longrightarrow> resp_args r' k = resp_args r k) \<longrightarrow>
         job_on_command (Employer flag) (env\<lparr>get_function_to_call := f\<rparr>) sched user_input w =
         job_on_command (Employer flag) env sched user_input w)"
proof (intro conjI impI)
  show "self_audio (Employer flag) = flag"
    by (simp add: Employer_def Let_def)
next
  assume n: "resp_name r = ''help''"
  show "job_on_command (Employer flag) env sched user_input w = Some (help_action env flag w1)"
    using n assms(2)
    by (intro dispatched [OF assms(1), where job = Help])
      (auto simp add: Employer_def Let_def kwarg_def dest: method_values method_pairs)
next
  assume n: "resp_name r = ''ask_question''"
  show "job_on_command (Employer flag) env sched user_input w =
           (case resp_args r ''question'' of
              None \<Rightarrow> Some (Raise TypeError, w1)
            | Some question \<Rightarrow> Some (ask_question env question flag w1))"
    using n assms(2)
    by (intro dispatched [OF assms(1), where job = AskQuestion])
      (auto simp add: Employer_def Let_def kwarg_def dest: method_values method_pairs split: option.splits)
next
  assume n: "resp_name r = ''check_new_emails''"
  show "job_on_command (Employer flag) env sched user_input w =
           Some (check_new_emails env flag w1)"
    using n assms(2)
    by (intro dispatched [OF assms(1), where job = CheckNewEmails])
      (auto simp add: Employer_def Let_def kwarg_def dest: method_values method_pairs)
next
  assume n: "resp_name r = ''start_checking_new_emails''"
  show "job_on_command (Employer flag) env sched user_input w =
           Some (start_checking_new_emails env sched flag w1)"
    using n assms(2)
    by (intro dispatched [OF assms(1), where job = StartCheckingNewEmails])
      (auto simp add: Employer_def Let_def kwarg_def dest: method_values method_pairs)
next
  assume n: "resp_name r = ''weather''"
  show "job_on_command (Employer flag) env sched user_input w =
           Some (weather env (kwarg (resp_args r) ''city'' PNone) flag w1)"
    using n assms(2)
    by (intro dispatched [OF assms(1), where job = WeatherJob])
      (auto simp add: Employer_def Let_def kwarg_def dest: method_values method_pairs)
next
  assume n: "resp_name r = ''close_computer''"
  show "job_on_command (Employer flag) env sched user_input w = Some (close_computer flag w1)"
    using n assms(2)
    by (intro dispatched [OF assms(1), where job = CloseComputer])
      (auto simp add: Employer_def Let_def kwarg_def dest: method_values method_pairs)
next
  assume n: "resp_name r = ''exit''"
  show "job_on_command (Employer flag) env sched user_input w = Some (exit flag w1)"
    using n assms(2)
    by (intro dispatched [OF assms(1), where job = ExitJob])
      (auto simp add: Employer_def Let_def kwarg_def dest: method_values method_pairs)
next
  assume n: "resp_name r = ''stop_checking_new_emails''"
  show "job_on_command (Employer flag) env sched user_input w =
           stop_checking_new_emails env sched w1"
    using n assms(2)
    by (intro dispatched [OF assms(1), where job = StopCheckingNewEmails])
      (auto simp add: Employer_def Let_def dest: stop_value)
next
  assume n: "resp_name r = ''accept_game''"
  show "job_on_command (Employer flag) env sched user_input w = Some (accept_game w1)"
    using n assms(2)
    by (intro dispatched [OF assms(1), where job = AcceptGame])
      (auto simp add: Employer_def Let_def dest: method_values method_pairs)
next
  assume n: "resp_name r = ''idle_mouse''"
  show "job_on_command (Employer flag) env sched user_input w = Some (idle_mouse w1)"
    using n assms(2)
    by (intro dispatched [OF assms(1), where job = IdleMouse])
      (auto simp add: Employer_def Let_def dest: method_values method_pairs)
next
  assume n: "resp_name r = ''queue_up''"
  show "job_on_command (Employer flag) env sched user_input w = Some (queue_up w1)"
    using n assms(2)
    by (intro dispatched [OF assms(1), where job = QueueUp])
      (auto simp add: Employer_def Let_def dest: method_values method_pairs)
next
  assume b: "f (trace w) user_input (available_functions (Employer flag)) = Inr (Some r')
        \<and> resp_name r' = resp_name r
        \<and> (\<forall>k. k \<noteq> ''audio'' \<longrightarrow> resp_args r' k = resp_args r k)"
  then have same: "(resp_args r')(''audio'' \<mapsto> self_audio (Employer flag)) =
      (resp_args r)(''audio'' \<mapsto> self_audio (Employer flag))"
    using audio_overwritten [of "resp_args r'" "resp_args r" "self_audio (Employer flag)"] by blast
  from b same assms(1)
  show "job_on_command (Employer flag) (env\<lparr>get_function_to_call := f\<rparr>) sched user_input w =
      job_on_command (Employer flag) env sched user_input w"
    by (simp add: job_on_command_def Let_def call_job_resolver cong: option.case_cong)
qed

text \<open>
  An \<^verbatim>\<open>Employer\<close> built with \<^verbatim>\<open>audio=True\<close> and a resolver that
  answers \<^verbatim>\<open>help\<close> with \<^verbatim>\<open>audio=False\<close>: the help sentence is
  spoken, as it is when the resolver gives no \<^verbatim>\<open>audio\<close> at all.
\<close>

theorem audio_is_the_employers_flag_witness:
  "job_on_command (Employer (PBool True))
     (example_env\<lparr>get_function_to_call :=
        (\<lambda>h u fs. Inr (Some \<lparr>resp_name = ''help'',
                               resp_args = [''audio'' \<mapsto> PBool False]\<rparr>))\<rparr>)
     [] ''what can you do'' initial_world =
   Some (Return PNone,
     \<lparr>active_jobs = Map.empty, threads = [],
      trace = [GetFunctionToCall ''what can you do'' (available_functions (Employer (PBool True))),
               Print ''Getting all commands...'', GetAllCommands,
               Speak ''Available commands are: help, exit.'']\<rparr>)
   \<and> job_on_command (Employer (PBool True))
     (example_env\<lparr>get_function_to_call :=
        (\<lambda>h u fs. Inr (Some \<lparr>resp_name = ''help'', resp_args = Map.empty\<rparr>))\<rparr>)
     [] ''what can you do'' initial_world =
     job_on_command (Employer (PBool True))
     (example_env\<lparr>get_function_to_call :=
        (\<lambda>h u fs. Inr (Some \<lparr>resp_name = ''help'',
                               resp_args = [''audio'' \<mapsto> PBool False]\<rparr>))\<rparr>)
     [] ''what can you do'' initial_world"
proof -
  let ?env = "example_env\<lparr>get_function_to_call :=
        (\<lambda>h u fs. Inr (Some \<lparr>resp_name = ''help'',
                               resp_args = [''audio'' \<mapsto> PBool False]\<rparr>))\<rparr>"
  let ?r = "\<lparr>resp_name = ''help'', resp_args = [''audio'' \<mapsto> PBool False]\<rparr>"
  have a: "get_function_to_call ?env (trace initial_world) ''what can you do''
      (available_functions (Employer (PBool True))) = Inr (Some ?r)"
    by simp
  show ?thesis
    using audio_is_the_employers_flag [OF a refl, where sched = "[]"
        and f = "\<lambda>h u fs. Inr (Some \<lparr>resp_name = ''help'', resp_args = Map.empty\<rparr>)"
        and r' = "\<lparr>resp_name = ''help'', resp_args = Map.empty\<rparr>"]
    by (simp add: example_env_def initial_world_def help_action_def emit_def Let_def Employer_def)
qed

section \<open>Starting the mail job twice\<close>

lemma mail_workers_targets:
  "mail_workers w =
     length (filter (\<lambda>g. case g of CheckNewEmailsWrapper a \<Rightarrow> True | AcceptGameWrapper \<Rightarrow> False)
       (map target (threads w)))"
  by (simp add: mail_workers_def filter_map o_def)

lemma thread_step_mail_workers [simp]:
  "mail_workers (thread_step env t w) = mail_workers w"
  by (simp add: mail_workers_targets thread_step_targets)

lemma start_first:
  assumes "active_jobs w ''check_new_emails'' = None"
  shows "fst (start_checking_new_emails env sched audio w) = Return PNone"
    and "map target (threads (snd (start_checking_new_emails env sched audio w))) =
           map target (threads w) @ [CheckNewEmailsWrapper audio]"
    and "active_jobs (snd (start_checking_new_emails env sched audio w)) =
           (active_jobs w)(''check_new_emails'' \<mapsto> length (threads w))"
    and "mail_workers (snd (start_checking_new_emails env sched audio w)) = mail_workers w + 1"
  using assms
  by (simp_all add: start_checking_new_emails_def Let_def mail_workers_targets run_threads_targets)







section \<open>When the worker's first test comes before its key\<close>

lemma window_ends_worker:
  assumes "active_jobs w ''check_new_emails'' = None"
    and "tid < length (threads w)"
    and "target (threads w ! tid) = CheckNewEmailsWrapper audio"
    and "tstate (threads w ! tid) = AtLoopHead"
    and "tid \<in> set sched"
  shows "tstate (threads (run_threads env sched w) ! tid) = Finished None"
  using assms
proof (induction sched arbitrary: w)
  case Nil
  then show ?case by simp
next
  case (Cons t sched)
  show ?case
  proof (cases "t = tid")
    case True
    have "tstate (threads (thread_step env t w) ! tid) = Finished None"
      using True Cons.prems(1-4)
      by (simp add: thread_step_def check_new_emails_wrapper_step_def)
    then show ?thesis
      by (simp add: run_threads_finished)
  next
    case False
    have "tstate (threads (run_threads env sched (thread_step env t w)) ! tid) = Finished None"
    proof (rule Cons.IH)
      show "active_jobs (thread_step env t w) ''check_new_emails'' = None"
        using Cons.prems(1) by simp
      show "tid < length (threads (thread_step env t w))"
        using Cons.prems(2) by simp
      show "target (threads (thread_step env t w) ! tid) = CheckNewEmailsWrapper audio"
        using Cons.prems(2,3) by (simp add: thread_step_target)
      show "tstate (threads (thread_step env t w) ! tid) = AtLoopHead"
        using False Cons.prems(4) thread_step_other [of tid t env w] by simp
      show "tid \<in> set sched"
        using False Cons.prems(5) by auto
    qed
    then show ?thesis by simp
  qed
qed

text \<open>
  The window of \<^verbatim>\<open>start_checking_new_emails\<close>. When the new worker takes a
  step before its key is stored, it finds no key and ends: the call leaves a finished
  worker recorded under the key, no mail is ever checked, and a later stop returns at once
  and removes the key. When the worker takes no step in the window, the call leaves it at
  the head of its loop with the key in the map.
\<close>

theorem start_window:
  assumes "active_jobs w ''check_new_emails'' = None"
  shows "(length (threads w) \<in> set sched \<longrightarrow>
            tstate (threads (snd (start_checking_new_emails env sched audio w)) ! length (threads w))
              = Finished None
          \<and> stop_checking_new_emails env sched'
              (snd (start_checking_new_emails env sched audio w)) =
            Some (Return PNone,
              (emit (Print ''Stopping checking new emails...'')
                 (snd (start_checking_new_emails env sched audio w)))
              \<lparr>active_jobs := active_jobs w\<rparr>))
    \<and> (length (threads w) \<notin> set sched \<longrightarrow>
            tstate (threads (snd (start_checking_new_emails env sched audio w)) ! length (threads w))
              = AtLoopHead)"
proof (intro conjI impI)
  let ?w1 = "emit (Print (''Checking new emails every '' @ str_nat minutes @ '' minutes...'')) w"
  let ?w2 = "start_thread (CheckNewEmailsWrapper audio) ?w1"
  let ?n = "length (threads w)"
  let ?s = "snd (start_checking_new_emails env sched audio w)"
  have th: "threads ?s = threads (run_threads env sched ?w2)"
    using assms by (simp add: start_checking_new_emails_def Let_def)
  have jobs: "active_jobs ?s = (active_jobs w)(''check_new_emails'' \<mapsto> ?n)"
    using assms by (simp add: start_first)
  {
    assume inw: "?n \<in> set sched"
    have fin: "tstate (threads (run_threads env sched ?w2) ! ?n) = Finished None"
    proof (rule window_ends_worker [OF _ _ _ _ inw])
      show "active_jobs ?w2 ''check_new_emails'' = None"
        using assms by simp
      show "?n < length (threads ?w2)"
        by simp
      show "target (threads ?w2 ! ?n) = CheckNewEmailsWrapper audio"
        by simp
      show "tstate (threads ?w2 ! ?n) = AtLoopHead"
        by simp
    qed
    with th show "tstate (threads ?s ! ?n) = Finished None"
      by simp
    have len: "?n < length (threads ?s)"
      using th by simp
    let ?w3 = "emit (Print ''Stopping checking new emails...'') ?s"
    have "finished ?n ?w3"
      using fin th len by (simp add: finished_def)
    then have j: "join env sched' ?n ?w3 = Some ?w3"
      by (cases sched') simp_all
    have del: "(active_jobs w)(''check_new_emails'' \<mapsto> ?n, ''check_new_emails'' := None) =
        active_jobs w"
      using assms by (auto simp add: fun_eq_iff)
    show "stop_checking_new_emails env sched' ?s =
        Some (Return PNone, ?w3\<lparr>active_jobs := active_jobs w\<rparr>)"
      using j jobs del by (simp add: stop_checking_new_emails_def Let_def)
  }
  {
    assume out: "?n \<notin> set sched"
    have "threads (run_threads env sched ?w2) ! ?n = threads ?w2 ! ?n"
      using out by (rule run_threads_other)
    with th show "tstate (threads ?s ! ?n) = AtLoopHead"
      by simp
  }
qed

theorem start_window_witness:
  "stop_checking_new_emails example_env [0, 0, 0]
     (snd (start_checking_new_emails example_env [0] (PBool False) initial_world)) =
   Some (Return PNone,
     \<lparr>active_jobs = Map.empty,
      threads = [\<lparr>target = CheckNewEmailsWrapper (PBool False), daemon = True,
                  tstate = Finished None\<rparr>],
      trace = [Print ''Checking new emails every 15 minutes...'',
               Print ''Stopping checking new emails...'']\<rparr>)
   \<and> threads (snd (start_checking_new_emails example_env [] (PBool False) initial_world)) =
     [\<lparr>target = CheckNewEmailsWrapper (PBool False), daemon = True, tstate = AtLoopHead\<rparr>]"
proof -
  have a: "active_jobs initial_world ''check_new_emails'' = None"
    by (simp add: initial_world_def)
  have m: "str_nat minutes = ''15''"
    by (simp add: minutes_def str_nat.simps)
  show ?thesis
    using start_window [OF a, of "[0]" example_env "PBool False" "[0, 0, 0]"]
      start_window [OF a, of "[]" example_env "PBool False" "[]"] m
    by (simp add: initial_world_def start_checking_new_emails_def Let_def emit_def
        thread_step_def check_new_emails_wrapper_step_def)
qed

section \<open>Stopping the mail job while its worker runs\<close>

lemma check_new_emails_loop_returns:
  assumes "\<forall>h m. \<exists>s. format_message env h m = Inr s"
  shows "fst (check_new_emails_loop env audio messages w) = Return PNone"
proof (induction messages arbitrary: w)
  case Nil
  show ?case by simp
next
  case (Cons m messages)
  from assms obtain s where "format_message env (trace w) m = Inr s"
    by blast
  with Cons show ?case
    by (simp add: Let_def)
qed

lemma check_new_emails_returns:
  assumes "\<forall>h. \<exists>ms. get_new_messages env h = Inr ms"
    and "\<forall>h m. \<exists>s. format_message env h m = Inr s"
  shows "fst (check_new_emails env audio w) = Return PNone"
proof -
  from assms(1) obtain ms
    where "get_new_messages env (trace (emit (Print ''Checking new emails...'') w)) = Inr ms"
    by blast
  then show ?thesis
    using check_new_emails_loop_returns [OF assms(2)]
    by (simp add: check_new_emails_def Let_def)
qed

text \<open>
  The mail worker's own step, while the key is in the map: it never leaves through the
  test at the head of its loop.
\<close>

lemma mail_worker_step:
  assumes "active_jobs w ''check_new_emails'' \<noteq> None"
    and "tid < length (threads w)"
    and "target (threads w ! tid) = CheckNewEmailsWrapper audio"
    and "tstate (threads w ! tid) \<noteq> Finished None"
  shows "tstate (threads (thread_step env tid w) ! tid) \<noteq> Finished None"
  using assms
  by (auto simp add: thread_step_def check_new_emails_wrapper_step_def Let_def
      split: tstate.splits outcome.splits)

lemma mail_worker_step_alive:
  assumes "active_jobs w ''check_new_emails'' \<noteq> None"
    and "tid < length (threads w)"
    and "target (threads w ! tid) = CheckNewEmailsWrapper audio"
    and "\<forall>x. tstate (threads w ! tid) \<noteq> Finished x"
    and "\<forall>h. \<exists>ms. get_new_messages env h = Inr ms"
    and "\<forall>h m. \<exists>s. format_message env h m = Inr s"
  shows "tstate (threads (thread_step env tid w) ! tid) \<noteq> Finished x"
  using assms(1-4) check_new_emails_returns [OF assms(5,6), of audio w]
  by (auto simp add: thread_step_def check_new_emails_wrapper_step_def Let_def
      split: tstate.splits outcome.splits)

lemma any_step_keeps_worker:
  assumes "active_jobs w ''check_new_emails'' \<noteq> None"
    and "tid < length (threads w)"
    and "target (threads w ! tid) = CheckNewEmailsWrapper audio"
    and "tstate (threads w ! tid) \<noteq> Finished None"
  shows "tstate (threads (thread_step env t w) ! tid) \<noteq> Finished None"
proof (cases "t = tid")
  case True
  with assms show ?thesis
    using mail_worker_step [of w tid audio env] by simp
next
  case False
  then show ?thesis
    using assms(4) thread_step_other [of tid t env w] by simp
qed

lemma any_step_keeps_worker_alive:
  assumes "active_jobs w ''check_new_emails'' \<noteq> None"
    and "tid < length (threads w)"
    and "target (threads w ! tid) = CheckNewEmailsWrapper audio"
    and "\<forall>x. tstate (threads w ! tid) \<noteq> Finished x"
    and "\<forall>h. \<exists>ms. get_new_messages env h = Inr ms"
    and "\<forall>h m. \<exists>s. format_message env h m = Inr s"
  shows "\<forall>x. tstate (threads (thread_step env t w) ! tid) \<noteq> Finished x"
proof (cases "t = tid")
  case True
  with assms show ?thesis
    using mail_worker_step_alive [of w tid audio env] by simp
next
  case False
  then show ?thesis
    using assms(4) thread_step_other [of tid t env w] by simp
qed

lemma run_threads_keeps_worker:
  assumes "active_jobs w ''check_new_emails'' \<noteq> None"
    and "tid < length (threads w)"
    and "target (threads w ! tid) = CheckNewEmailsWrapper audio"
    and "tstate (threads w ! tid) \<noteq> Finished None"
  shows "tstate (threads (run_threads env sched w) ! tid) \<noteq> Finished None"
  using assms
proof (induction sched arbitrary: w)
  case Nil
  then show ?case by simp
next
  case (Cons t sched)
  have "tstate (threads (run_threads env sched (thread_step env t w)) ! tid) \<noteq> Finished None"
  proof (rule Cons.IH)
    show "active_jobs (thread_step env t w) ''check_new_emails'' \<noteq> None"
      using Cons.prems(1) by simp
    show "tid < length (threads (thread_step env t w))"
      using Cons.prems(2) by simp
    show "target (threads (thread_step env t w) ! tid) = CheckNewEmailsWrapper audio"
      using Cons.prems(2,3) by (simp add: thread_step_target)
    show "tstate (threads (thread_step env t w) ! tid) \<noteq> Finished None"
      using Cons.prems by (rule any_step_keeps_worker)
  qed
  then show ?case by simp
qed

lemma join_frame:
  "join env sched tid w = Some w' \<Longrightarrow>
   active_jobs w' = active_jobs w \<and> length (threads w') = length (threads w)"
proof (induction sched arbitrary: w)
  case Nil
  then show ?case by (simp split: if_splits)
next
  case (Cons t sched)
  show ?case
  proof (cases "finished tid w")
    case True
    with Cons.prems show ?thesis by simp
  next
    case False
    with Cons.prems have "join env sched tid (thread_step env t w) = Some w'"
      by simp
    from Cons.IH [OF this] show ?thesis by simp
  qed
qed

lemma join_only_after_crash:
  assumes "active_jobs w ''check_new_emails'' \<noteq> None"
    and "tid < length (threads w)"
    and "target (threads w ! tid) = CheckNewEmailsWrapper audio"
    and "tstate (threads w ! tid) \<noteq> Finished None"
    and "join env sched tid w = Some w'"
  shows "\<exists>e. tstate (threads w' ! tid) = Finished (Some e)"
  using assms
proof (induction sched arbitrary: w)
  case Nil
  then show ?case
    by (auto simp add: finished_def split: if_splits tstate.splits)
next
  case (Cons t sched)
  show ?case
  proof (cases "finished tid w")
    case True
    with Cons.prems show ?thesis
      by (auto simp add: finished_def split: tstate.splits)
  next
    case False
    with Cons.prems(5) have j: "join env sched tid (thread_step env t w) = Some w'"
      by simp
    show ?thesis
    proof (rule Cons.IH [OF _ _ _ _ j])
      show "active_jobs (thread_step env t w) ''check_new_emails'' \<noteq> None"
        using Cons.prems(1) by simp
      show "tid < length (threads (thread_step env t w))"
        using Cons.prems(2) by simp
      show "target (threads (thread_step env t w) ! tid) = CheckNewEmailsWrapper audio"
        using Cons.prems(2,3) by (simp add: thread_step_target)
      show "tstate (threads (thread_step env t w) ! tid) \<noteq> Finished None"
        using Cons.prems(1-4) by (rule any_step_keeps_worker)
    qed
  qed
qed

lemma join_never_returns:
  assumes "active_jobs w ''check_new_emails'' \<noteq> None"
    and "tid < length (threads w)"
    and "target (threads w ! tid) = CheckNewEmailsWrapper audio"
    and "\<forall>x. tstate (threads w ! tid) \<noteq> Finished x"
    and "\<forall>h. \<exists>ms. get_new_messages env h = Inr ms"
    and "\<forall>h m. \<exists>s. format_message env h m = Inr s"
  shows "join env sched tid w = None"
  using assms(1-4)
proof (induction sched arbitrary: w)
  case Nil
  then show ?case
    by (auto simp add: finished_def split: tstate.splits)
next
  case (Cons t sched)
  have nf: "\<not> finished tid w"
    using Cons.prems(4) by (auto simp add: finished_def split: tstate.splits)
  have "join env sched tid (thread_step env t w) = None"
  proof (rule Cons.IH)
    show "active_jobs (thread_step env t w) ''check_new_emails'' \<noteq> None"
      using Cons.prems(1) by simp
    show "tid < length (threads (thread_step env t w))"
      using Cons.prems(2) by simp
    show "target (threads (thread_step env t w) ! tid) = CheckNewEmailsWrapper audio"
      using Cons.prems(2,3) by (simp add: thread_step_target)
    show "\<forall>x. tstate (threads (thread_step env t w) ! tid) \<noteq> Finished x"
      using Cons.prems(1-4) assms(5,6) by (rule any_step_keeps_worker_alive)
  qed
  with nf show ?case by simp
qed

text \<open>
  C1, on the code. Take a world where a mail worker is recorded under
  \<^verbatim>\<open>"check_new_emails"\<close> and has not left through the test at the head of
  its loop. \<^verbatim>\<open>stop_checking_new_emails\<close> joins the worker before it deletes the
  key, and the worker leaves its loop only when the key is gone. So under every schedule
  the worker never leaves through that test; the call can only return after the worker
  was ended by an exception of \<^verbatim>\<open>check_new_emails\<close>; and when the mail
  collaborators never raise and the worker is running, the call does not return, however
  long the schedule.
\<close>

theorem stop_waits_for_a_worker_it_never_cancels:
  assumes "active_jobs w ''check_new_emails'' = Some tid"
    and "tid < length (threads w)"
    and "target (threads w ! tid) = CheckNewEmailsWrapper audio"
    and "tstate (threads w ! tid) \<noteq> Finished None"
  shows "tstate (threads (run_threads env sched w) ! tid) \<noteq> Finished None
    \<and> (\<forall>r w'. stop_checking_new_emails env sched w = Some (r, w') \<longrightarrow>
          (\<exists>e. tstate (threads w' ! tid) = Finished (Some e)))
    \<and> ((\<forall>h. \<exists>ms. get_new_messages env h = Inr ms)
        \<and> (\<forall>h m. \<exists>s. format_message env h m = Inr s)
        \<and> (\<forall>x. tstate (threads w ! tid) \<noteq> Finished x) \<longrightarrow>
        stop_checking_new_emails env sched w = None)"
proof (intro conjI allI impI)
  have key: "active_jobs w ''check_new_emails'' \<noteq> None"
    using assms(1) by simp
  show "tstate (threads (run_threads env sched w) ! tid) \<noteq> Finished None"
    using key assms(2-4) by (rule run_threads_keeps_worker)
next
  fix r w'
  assume ret: "stop_checking_new_emails env sched w = Some (r, w')"
  let ?w1 = "emit (Print ''Stopping checking new emails...'') w"
  from ret assms(1) obtain w2 where j: "join env sched tid ?w1 = Some w2"
    and th: "threads w' = threads w2"
    by (auto simp add: stop_checking_new_emails_def Let_def split: option.splits if_splits)
  have "\<exists>e. tstate (threads w2 ! tid) = Finished (Some e)"
  proof (rule join_only_after_crash [OF _ _ _ _ j])
    show "active_jobs ?w1 ''check_new_emails'' \<noteq> None"
      using assms(1) by simp
    show "tid < length (threads ?w1)"
      using assms(2) by simp
    show "target (threads ?w1 ! tid) = CheckNewEmailsWrapper audio"
      using assms(3) by simp
    show "tstate (threads ?w1 ! tid) \<noteq> Finished None"
      using assms(4) by simp
  qed
  with th show "\<exists>e. tstate (threads w' ! tid) = Finished (Some e)"
    by simp
next
  assume quiet: "(\<forall>h. \<exists>ms. get_new_messages env h = Inr ms)
        \<and> (\<forall>h m. \<exists>s. format_message env h m = Inr s)
        \<and> (\<forall>x. tstate (threads w ! tid) \<noteq> Finished x)"
  let ?w1 = "emit (Print ''Stopping checking new emails...'') w"
  have "join env sched tid ?w1 = None"
  proof (rule join_never_returns)
    show "active_jobs ?w1 ''check_new_emails'' \<noteq> None"
      using assms(1) by simp
    show "tid < length (threads ?w1)"
      using assms(2) by simp
    show "target (threads ?w1 ! tid) = CheckNewEmailsWrapper audio"
      using assms(3) by simp
    show "\<forall>x. tstate (threads ?w1 ! tid) \<noteq> Finished x"
      using quiet by simp
    show "\<forall>h. \<exists>ms. get_new_messages env h = Inr ms"
      using quiet by simp
    show "\<forall>h m. \<exists>s. format_message env h m = Inr s"
      using quiet by simp
  qed
  with assms(1) show "stop_checking_new_emails env sched w = None"
    by (simp add: stop_checking_new_emails_def Let_def)
qed

text \<open>
  The failing input: the job is started in the initial world, the worker takes no step
  between the start of its thread and the store of its key, so that its first test finds
  the key, and the job is stopped next. With the example environment the stop does not
  return under any schedule.
\<close>

theorem stop_waits_for_a_worker_it_never_cancels_witness:
  "\<forall>sched. stop_checking_new_emails example_env sched
      (snd (start_checking_new_emails example_env [] (PBool False) initial_world)) = None"
proof
  fix sched
  let ?w = "snd (start_checking_new_emails example_env [] (PBool False) initial_world)"
  have a: "active_jobs ?w ''check_new_emails'' = Some 0"
    by (simp add: start_checking_new_emails_def initial_world_def Let_def)
  have b: "0 < length (threads ?w)"
    by (simp add: start_checking_new_emails_def initial_world_def Let_def)
  have c: "target (threads ?w ! 0) = CheckNewEmailsWrapper (PBool False)"
    by (simp add: start_checking_new_emails_def initial_world_def Let_def)
  have d: "tstate (threads ?w ! 0) = AtLoopHead"
    by (simp add: start_checking_new_emails_def initial_world_def Let_def)
  have e: "tstate (threads ?w ! 0) \<noteq> Finished None"
    using d by simp
  show "stop_checking_new_emails example_env sched ?w = None"
    using stop_waits_for_a_worker_it_never_cancels [OF a b c e, of example_env sched] d
    by (simp add: example_env_def)
qed

end
